theory Spec2Isabelle
  imports Complex_Main
begin

section \<open>JavaScript values\<close>

text \<open>
  The repository holds three variants of the OAuth manager: the script
  \<^verbatim>\<open>src/index.js\<close>, its TypeScript port (the class with \<^verbatim>\<open>init\<close>,
  \<^verbatim>\<open>login\<close> and \<^verbatim>\<open>logout\<close>) and the Node class (with \<^verbatim>\<open>saveTokens\<close>,
  \<^verbatim>\<open>clearTokens\<close> and the HMAC header). All three run on JavaScript values, so
  the model has one type of them: the scalars a token, a timestamp and a field of a
  parsed token response can be. Numbers are the integers among the doubles
  (timestamps in milliseconds, lifetimes in seconds): up to \<open>2^53\<close> in magnitude
  every integer is one, beyond it a sum or product is rounded to the nearest double
  (\<open>round_double\<close> below). Fractions and the overflow to infinity are outside the
  model. \<open>JNaN\<close> is the one non-number a sum or product of these can give.
\<close>

datatype jsval = JUndefined | JNull | JNum int | JNaN | JStr string

text \<open>\<^verbatim>\<open>!v\<close>, \<^verbatim>\<open>v || w\<close>, \<^verbatim>\<open>v ? a : b\<close> and \<^verbatim>\<open>if (v)\<close> test truthiness.\<close>

fun truthy :: "jsval \<Rightarrow> bool" where
  "truthy JUndefined = False"
| "truthy JNull = False"
| "truthy (JNum n) = (n \<noteq> 0)"
| "truthy JNaN = False"
| "truthy (JStr s) = (s \<noteq> [])"

definition js_or :: "jsval \<Rightarrow> jsval \<Rightarrow> jsval" where
  "js_or v w = (if truthy v then v else w)"

fun is_string :: "jsval \<Rightarrow> bool" where
  "is_string (JStr s) = True"
| "is_string v = False"

subsection \<open>Arithmetic in doubles\<close>

text \<open>
  An integer of magnitude at most \<open>2^53\<close> is a double. A larger one is rounded to
  53 significant bits, to the nearest and on a tie to the even one, as every
  arithmetic operation of JavaScript rounds its exact result.
\<close>

fun bitlen :: "nat \<Rightarrow> nat" where
  "bitlen n = (if n = 0 then 0 else Suc (bitlen (n div 2)))"

declare bitlen.simps [simp del]

definition round_double :: "int \<Rightarrow> int" where
  "round_double n =
     (if \<bar>n\<bar> \<le> 9007199254740992 then n
      else
        (let a = nat \<bar>n\<bar>;
             k = bitlen a - 53;
             q = a div 2 ^ k;
             r = a mod 2 ^ k;
             h = 2 ^ (k - 1);
             q' = (if h < r \<or> (r = h \<and> odd q) then q + 1 else q)
         in sgn n * int (q' * 2 ^ k)))"

subsection \<open>Numbers to strings and back\<close>

fun digits_of :: "nat \<Rightarrow> string" where
  "digits_of n =
     (if n < 10 then [''0123456789'' ! n]
      else digits_of (n div 10) @ [''0123456789'' ! (n mod 10)])"

declare digits_of.simps [simp del]

definition decimal :: "int \<Rightarrow> string" where
  "decimal i = (if i < 0 then CHR ''-'' # digits_of (nat (- i)) else digits_of (nat i))"

text \<open>\<^verbatim>\<open>String(v)\<close>, also what \<^verbatim>\<open>localStorage.setItem\<close> and string concatenation
  apply to a value (for a number below \<open>10^21\<close> in magnitude, where JavaScript
  writes all the digits).\<close>

fun js_String :: "jsval \<Rightarrow> string" where
  "js_String JUndefined = ''undefined''"
| "js_String JNull = ''null''"
| "js_String (JNum n) = decimal n"
| "js_String JNaN = ''NaN''"
| "js_String (JStr s) = s"

text \<open>
  The conversion of a string to a number, as \<^verbatim>\<open>now < expiresAt\<close> applies it to a
  stored string: white space (the ASCII part of it) is trimmed, the empty string is 0,
  an optionally signed run of decimal digits is its value. Every other string is read as NaN here; that
  includes the fractional, exponent and hexadecimal literals, which the program never
  writes (it stores \<^verbatim>\<open>String\<close> of an integer sum).
\<close>

definition is_ws :: "char \<Rightarrow> bool" where
  "is_ws c = (c \<in> set [CHR 0x09, CHR 0x0A, CHR 0x0B, CHR 0x0C, CHR 0x0D, CHR 0x20])"

definition trim :: "string \<Rightarrow> string" where
  "trim s = rev (dropWhile is_ws (rev (dropWhile is_ws s)))"

definition is_digit :: "char \<Rightarrow> bool" where
  "is_digit c = (c \<in> set ''0123456789'')"

fun digits_value :: "nat \<Rightarrow> string \<Rightarrow> nat" where
  "digits_value acc [] = acc"
| "digits_value acc (c # cs) = digits_value (acc * 10 + (of_char c - 48)) cs"

definition unsigned_decimal :: "string \<Rightarrow> jsval" where
  "unsigned_decimal s =
     (if s \<noteq> [] \<and> list_all is_digit s
      then JNum (round_double (int (digits_value 0 s))) else JNaN)"

definition StringToNumber :: "string \<Rightarrow> jsval" where
  "StringToNumber s =
     (case trim s of
        [] \<Rightarrow> JNum 0
      | c # cs \<Rightarrow>
          if c = CHR ''-'' then
            (case unsigned_decimal cs of JNum n \<Rightarrow> JNum (- n) | v \<Rightarrow> JNaN)
          else if c = CHR ''+'' then unsigned_decimal cs
          else unsigned_decimal (c # cs))"

fun ToNumber :: "jsval \<Rightarrow> jsval" where
  "ToNumber JUndefined = JNaN"
| "ToNumber JNull = JNum 0"
| "ToNumber (JNum n) = JNum n"
| "ToNumber JNaN = JNaN"
| "ToNumber (JStr s) = StringToNumber s"

text \<open>\<^verbatim>\<open>a + b\<close>: concatenation when either side is a string, else the sum of the
  numbers, rounded to a double.\<close>

definition js_plus :: "jsval \<Rightarrow> jsval \<Rightarrow> jsval" where
  "js_plus a b =
     (if is_string a \<or> is_string b then JStr (js_String a @ js_String b)
      else case ToNumber a of
             JNum x \<Rightarrow>
               (case ToNumber b of JNum y \<Rightarrow> JNum (round_double (x + y)) | w \<Rightarrow> JNaN)
           | v \<Rightarrow> JNaN)"

text \<open>\<^verbatim>\<open>a * b\<close>: always numeric, the product rounded to a double.\<close>

definition js_times :: "jsval \<Rightarrow> jsval \<Rightarrow> jsval" where
  "js_times a b =
     (case ToNumber a of
        JNum x \<Rightarrow>
          (case ToNumber b of JNum y \<Rightarrow> JNum (round_double (x * y)) | w \<Rightarrow> JNaN)
      | v \<Rightarrow> JNaN)"

text \<open>\<^verbatim>\<open>now < v\<close> for a number \<open>now\<close>: \<open>v\<close> is converted to a number, and a
  comparison with NaN is false.\<close>

definition num_lt :: "int \<Rightarrow> jsval \<Rightarrow> bool" where
  "num_lt now v = (case ToNumber v of JNum y \<Rightarrow> now < y | w \<Rightarrow> False)"

section \<open>Storage, errors and the network\<close>

text \<open>
  The \<^verbatim>\<open>Storage\<close> class of the repository wraps \<^verbatim>\<open>localStorage\<close>: \<^verbatim>\<open>set\<close>
  stores the string form of the value, \<^verbatim>\<open>get\<close> returns the string or
  \<^verbatim>\<open>null\<close>, \<^verbatim>\<open>remove\<close> deletes the key.
\<close>

type_synonym storage = "string \<rightharpoonup> string"

definition storage_get :: "storage \<Rightarrow> string \<Rightarrow> jsval" where
  "storage_get st k = (case st k of None \<Rightarrow> JNull | Some v \<Rightarrow> JStr v)"

definition storage_set :: "storage \<Rightarrow> string \<Rightarrow> jsval \<Rightarrow> storage" where
  "storage_set st k v = st(k \<mapsto> js_String v)"

definition storage_remove :: "storage \<Rightarrow> string \<Rightarrow> storage" where
  "storage_remove st k = st(k := None)"

text \<open>
  What a call can throw or reject with: \<^verbatim>\<open>new Error(message)\<close>, the
  \<^verbatim>\<open>ReferenceError\<close> of reading an undeclared identifier, the rejection of
  \<^verbatim>\<open>fetch\<close> (the transport failed) and the rejection of \<^verbatim>\<open>response.json()\<close>
  (the body is not JSON).
\<close>

datatype js_error = Error string | ReferenceError string | FetchRejected | JsonRejected

record request =
  url :: string
  http_method :: string
  headers :: "(string \<times> string) list"
  body :: "string option"

text \<open>A response: its HTTP status and what \<^verbatim>\<open>response.json()\<close> resolves to
  (\<open>None\<close> when the body is not JSON). \<^verbatim>\<open>fetch\<close> resolves with a response whatever
  the status; it rejects only when the transport fails.\<close>

record response =
  status :: nat
  json :: "(string \<rightharpoonup> jsval) option"

datatype fetch_result = Rejected | Responded response

text \<open>\<^verbatim>\<open>data.k\<close> of a parsed object: a missing property reads \<^verbatim>\<open>undefined\<close>.\<close>

definition prop_of :: "(string \<rightharpoonup> jsval) \<Rightarrow> string \<Rightarrow> jsval" where
  "prop_of d k = (case d k of None \<Rightarrow> JUndefined | Some v \<Rightarrow> v)"

text \<open>What the chain \<^verbatim>\<open>fetch(...).then((response) => response.json())\<close> hands to the
  next \<^verbatim>\<open>then\<close>; \<open>None\<close> when either step rejects and the chain's \<^verbatim>\<open>catch\<close>
  logs the error.\<close>

fun parsed :: "fetch_result \<Rightarrow> (string \<rightharpoonup> jsval) option" where
  "parsed Rejected = None"
| "parsed (Responded r) = json r"

section \<open>The state of a manager\<close>

text \<open>The fields every variant has, then the fields of the browser variants
  (\<^verbatim>\<open>index.js\<close> and its TypeScript port) and of the Node variant.\<close>

record manager =
  scope :: jsval
  responseType :: string
  storage :: storage
  accessToken :: jsval
  refreshToken :: jsval

record browser = manager +
  clientID :: string
  redirectURI :: string
  authorizeURL :: string
  tokenURL :: string
  revokeURL :: string
  refreshURL :: string
  infoURL :: string
  withPKCE :: bool
  clientHeader :: "(string \<times> string) list"
  codeVerifier :: jsval

section \<open>The browser variants\<close>

subsection \<open>Token validity\<close>

text \<open>
  \<^verbatim>\<open>isTokenValid\<close> of \<^verbatim>\<open>index.js\<close>: it reads the key \<^verbatim>\<open>expires_in\<close> and, when
  that is present, evaluates \<^verbatim>\<open>now < expiresAt\<close>. No declaration of
  \<^verbatim>\<open>expiresAt\<close> exists in the file, so the read throws a \<^verbatim>\<open>ReferenceError\<close>.
\<close>

definition isTokenValid_js :: "browser \<Rightarrow> int \<Rightarrow> js_error + bool" where
  "isTokenValid_js m now =
     (let expiresIn = storage_get (storage m) ''expires_in'' in
      if \<not> truthy expiresIn then Inr False
      else Inl (ReferenceError ''expiresAt is not defined''))"

text \<open>\<^verbatim>\<open>isTokenValid\<close> of the TypeScript port: the key is \<^verbatim>\<open>expires_at\<close> and the
  variable is declared.\<close>

definition isTokenValid :: "browser \<Rightarrow> int \<Rightarrow> bool" where
  "isTokenValid m now =
     (let expiresAt = storage_get (storage m) ''expires_at'' in
      if \<not> truthy expiresAt then False else num_lt now expiresAt)"

text \<open>A manager of the browser variants right after a code exchange that answered
  \<^verbatim>\<open>expires_in: 3600\<close> at time 1700000000000.\<close>

definition browser0 :: browser where
  "browser0 =
     \<lparr> scope = JStr ''openid'', responseType = ''code'',
       storage = [''access_token'' \<mapsto> ''A'', ''refresh_token'' \<mapsto> ''R'',
                  ''expires_in'' \<mapsto> ''3600'', ''expiry'' \<mapsto> ''1700000003600'',
                  ''expires_at'' \<mapsto> ''1700000003600''],
       accessToken = JStr ''A'', refreshToken = JStr ''R'',
       clientID = ''client'', redirectURI = ''https://app.example/cb'',
       authorizeURL = ''https://api.beyondigital.in/o/authorize/'',
       tokenURL = ''https://api.beyondigital.in/o/token/'',
       revokeURL = ''https://api.beyondigital.in/o/revoke-token/'',
       refreshURL = ''https://api.beyondigital.in/o/token/'',
       infoURL = ''https://api.beyondigital.in/o/userinfo/'',
       withPKCE = True,
       clientHeader = [(''Content-Type'', ''application/x-www-form-urlencoded''),
                       (''Authorization'', ''Bearer A'')],
       codeVerifier = JUndefined \<rparr>"

subsection \<open>The requests and handlers of the browser variants\<close>

text \<open>\<^verbatim>\<open>JSON.stringify\<close> of an object literal whose properties are scalars: a
  property whose value is \<^verbatim>\<open>undefined\<close> is left out, NaN is written \<^verbatim>\<open>null\<close>,
  a string is quoted with its quotes, backslashes and control characters escaped.\<close>

definition hex_lower :: "nat \<Rightarrow> char" where
  "hex_lower d = ''0123456789abcdef'' ! d"

definition hex_upper :: "nat \<Rightarrow> char" where
  "hex_upper d = ''0123456789ABCDEF'' ! d"

definition json_escape :: "char \<Rightarrow> string" where
  "json_escape c =
     (if c = CHR 0x22 then [CHR 0x5C, CHR 0x22]
      else if c = CHR 0x5C then [CHR 0x5C, CHR 0x5C]
      else if c = CHR 0x08 then [CHR 0x5C, CHR ''b'']
      else if c = CHR 0x09 then [CHR 0x5C, CHR ''t'']
      else if c = CHR 0x0A then [CHR 0x5C, CHR ''n'']
      else if c = CHR 0x0C then [CHR 0x5C, CHR ''f'']
      else if c = CHR 0x0D then [CHR 0x5C, CHR ''r'']
      else if (of_char c :: nat) < 32 then
        [CHR 0x5C, CHR ''u'', CHR ''0'', CHR ''0'',
         hex_lower (of_char c div 16), hex_lower (of_char c mod 16)]
      else [c])"

definition json_quote :: "string \<Rightarrow> string" where
  "json_quote s = CHR 0x22 # concat (map json_escape s) @ [CHR 0x22]"

fun json_member :: "string \<times> jsval \<Rightarrow> string option" where
  "json_member (k, JUndefined) = None"
| "json_member (k, JNull) = Some (json_quote k @ '':null'')"
| "json_member (k, JNum n) = Some (json_quote k @ '':'' @ decimal n)"
| "json_member (k, JNaN) = Some (json_quote k @ '':null'')"
| "json_member (k, JStr s) = Some (json_quote k @ '':'' @ json_quote s)"

fun join :: "string \<Rightarrow> string list \<Rightarrow> string" where
  "join sep [] = []"
| "join sep [x] = x"
| "join sep (x # y # ys) = x @ sep @ join sep (y # ys)"

definition JSON_stringify :: "(string \<times> jsval) list \<Rightarrow> string" where
  "JSON_stringify obj = ''{'' @ join '','' (List.map_filter json_member obj) @ ''}''"

text \<open>
  \<^verbatim>\<open>revokeToken\<close> (the same in \<^verbatim>\<open>index.js\<close> and in the TypeScript port). The call
  itself checks the access token and issues the request; the handler of the promise
  chain runs later, once the response has been parsed, and clears the two tokens and
  their two keys. A rejected \<^verbatim>\<open>fetch\<close> or \<^verbatim>\<open>response.json()\<close> goes to
  \<^verbatim>\<open>catch\<close>, which logs it and changes nothing.
\<close>

definition revokeToken_call :: "browser \<Rightarrow> js_error + request" where
  "revokeToken_call m =
     (if \<not> truthy (accessToken m) then Inl (Error ''No access token found'')
      else Inr \<lparr> url = revokeURL m, http_method = ''POST'', headers = clientHeader m,
                 body = Some (JSON_stringify
                   [(''client_id'', JStr (clientID m)), (''token'', accessToken m)]) \<rparr>)"

definition revokeToken_then :: "browser \<Rightarrow> browser" where
  "revokeToken_then m =
     m\<lparr> accessToken := JNull, refreshToken := JNull,
        storage := storage_remove (storage_remove (storage m) ''access_token'')
                     ''refresh_token'' \<rparr>"

definition revokeToken_settle :: "browser \<Rightarrow> fetch_result \<Rightarrow> browser" where
  "revokeToken_settle m res =
     (case parsed res of None \<Rightarrow> m | Some d \<Rightarrow> revokeToken_then m)"

text \<open>The result of an operation: what the call throws or returns, the manager once
  the promise chain has settled, and the requests issued.\<close>

definition revokeToken ::
  "browser \<Rightarrow> fetch_result \<Rightarrow> (js_error + unit) \<times> browser \<times> request list" where
  "revokeToken m res =
     (case revokeToken_call m of
        Inl e \<Rightarrow> (Inl e, m, [])
      | Inr rq \<Rightarrow> (Inr (), revokeToken_settle m res, [rq]))"

text \<open>
  \<^verbatim>\<open>logout\<close> (TypeScript port): \<^verbatim>\<open>this.revokeToken()\<close>, then four removals. An
  exception of \<^verbatim>\<open>revokeToken\<close> is not caught and ends \<^verbatim>\<open>logout\<close> before the
  removals; the handler of the revoke request runs after them.
\<close>

definition logout ::
  "browser \<Rightarrow> fetch_result \<Rightarrow> (js_error + unit) \<times> browser \<times> request list" where
  "logout m res =
     (case revokeToken_call m of
        Inl e \<Rightarrow> (Inl e, m, [])
      | Inr rq \<Rightarrow>
          (let s1 = storage_remove (storage m) ''access_token'';
               s2 = storage_remove s1 ''refresh_token'';
               s3 = storage_remove s2 ''expires_in'';
               s4 = storage_remove s3 ''expires_at''
           in (Inr (), revokeToken_settle (m\<lparr> storage := s4 \<rparr>) res, [rq])))"

text \<open>
  \<^verbatim>\<open>tokenRefresh\<close> of the TypeScript port; the method \<^verbatim>\<open>refreshToken\<close> of
  \<^verbatim>\<open>index.js\<close> has the same body (there the field \<^verbatim>\<open>this.refreshToken\<close> that
  \<^verbatim>\<open>init\<close> assigns hides the method on the instance, which is why the port renamed
  it). With no access token it first calls \<^verbatim>\<open>this.authorize()\<close>,
  whose outcome (an exception or not, and the manager it leaves) is the parameter
  \<open>authorize\<close>. It then posts the refresh request whatever the refresh token is; the
  handler stores the new access token and nothing else.
\<close>

definition tokenRefresh_then :: "browser \<Rightarrow> (string \<rightharpoonup> jsval) \<Rightarrow> browser" where
  "tokenRefresh_then m d =
     (let tok = prop_of d ''access_token'' in
      m\<lparr> accessToken := tok, storage := storage_set (storage m) ''access_token'' tok \<rparr>)"

definition tokenRefresh ::
  "(browser \<Rightarrow> js_error option \<times> browser) \<Rightarrow> browser \<Rightarrow> fetch_result
     \<Rightarrow> (js_error + unit) \<times> browser \<times> request list" where
  "tokenRefresh authorize m res =
     (case (if \<not> truthy (accessToken m) then authorize m else (None, m)) of
        (Some e, m1) \<Rightarrow> (Inl e, m1, [])
      | (None, m1) \<Rightarrow>
          (let rq = \<lparr> url = refreshURL m1, http_method = ''POST'',
                      headers = clientHeader m1,
                      body = Some (JSON_stringify
                        [(''client_id'', JStr (clientID m1)),
                         (''grant_type'', JStr ''refresh_token''),
                         (''refresh_token'', refreshToken m1)]) \<rparr>
           in (Inr (),
               (case parsed res of None \<Rightarrow> m1 | Some d \<Rightarrow> tokenRefresh_then m1 d),
               [rq])))"

text \<open>\<^verbatim>\<open>getUserInfo\<close> of \<^verbatim>\<open>index.js\<close>: the guard is the access token alone; the
  call returns nothing and changes nothing.\<close>

definition userinfo_request :: "browser \<Rightarrow> request" where
  "userinfo_request m =
     \<lparr> url = infoURL m, http_method = ''GET'',
       headers = [(''Content-Type'', ''application/json''),
                  (''Authorization'',
                   ''Bearer '' @ js_String (storage_get (storage m) ''access_token''))],
       body = None \<rparr>"

definition getUserInfo_js :: "browser \<Rightarrow> (js_error + unit) \<times> request list" where
  "getUserInfo_js m =
     (if \<not> truthy (accessToken m) then (Inl (Error ''No access token found''), [])
      else (Inr (), [userinfo_request m]))"

text \<open>\<^verbatim>\<open>getUserInfo\<close> of the TypeScript port: it asks \<^verbatim>\<open>isTokenValid()\<close> first;
  a failure of the request is caught and returned as \<^verbatim>\<open>{ error }\<close>.\<close>

datatype userinfo = UserData "string \<rightharpoonup> jsval" | ErrorObject js_error

definition getUserInfo ::
  "browser \<Rightarrow> int \<Rightarrow> fetch_result \<Rightarrow> (js_error + userinfo) \<times> request list" where
  "getUserInfo m now res =
     (if \<not> isTokenValid m now then (Inl (Error ''No access token found''), [])
      else if \<not> truthy (accessToken m) then (Inl (Error ''No access token found''), [])
      else (Inr (case res of
                   Rejected \<Rightarrow> ErrorObject FetchRejected
                 | Responded r \<Rightarrow>
                     (case json r of
                        None \<Rightarrow> ErrorObject JsonRejected
                      | Some d \<Rightarrow> UserData d)),
            [userinfo_request m]))"

text \<open>The handler of \<^verbatim>\<open>getAccessToken\<close> in \<^verbatim>\<open>index.js\<close>, run on the parsed
  response at time \<open>now\<close>.\<close>

definition getAccessToken_then :: "browser \<Rightarrow> int \<Rightarrow> (string \<rightharpoonup> jsval) \<Rightarrow> browser" where
  "getAccessToken_then m now d =
     (let m1 = m\<lparr> accessToken := prop_of d ''access_token'',
                   refreshToken := prop_of d ''refresh_token'' \<rparr>;
          s1 = storage_set (storage m1) ''expires_in'' (prop_of d ''expires_in'');
          s2 = storage_set s1 ''expiry'' (js_plus (prop_of d ''expires_in'') (JNum now));
          s3 = storage_set s2 ''access_token'' (accessToken m1);
          s4 = storage_set s3 ''refresh_token'' (refreshToken m1)
      in m1\<lparr> storage := s4 \<rparr>)"

subsection \<open>PKCE and the authorization URL of the browser variants\<close>

text \<open>
  \<^verbatim>\<open>generateRandomString\<close>: \<open>rnd k\<close> is the value the \<open>k\<close>-th call of
  \<^verbatim>\<open>Math.random()\<close> returns, a number in \<open>[0, 1)\<close> (a double, read here as a
  real). The product with the length is taken over the reals; the code rounds it to a
  double before the floor, which at some draws moves the index by one. \<^verbatim>\<open>charAt\<close>
  of an index outside the string is the empty string.
\<close>

definition charset :: string where
  "charset = ''ABCDEFGHIJKLMNOPQRSTUVWXYZabcdefghijklmnopqrstuvwxyz0123456789-._~''"

definition charAt :: "string \<Rightarrow> int \<Rightarrow> string" where
  "charAt s i = (if 0 \<le> i \<and> i < int (length s) then [s ! nat i] else [])"

function generateRandomString_loop ::
  "(nat \<Rightarrow> real) \<Rightarrow> int \<Rightarrow> int \<Rightarrow> string \<Rightarrow> string" where
  "generateRandomString_loop rnd len i random =
     (if i < len then
        generateRandomString_loop rnd len (i + 1)
          (random @ charAt charset \<lfloor>rnd (nat i) * real (length charset)\<rfloor>)
      else random)"
  by pat_completeness auto
termination
  by (relation "measure (\<lambda>(rnd, len, i, random). nat (len - i))") auto

declare generateRandomString_loop.simps [simp del]

definition generateRandomString :: "(nat \<Rightarrow> real) \<Rightarrow> int \<Rightarrow> string" where
  "generateRandomString rnd len = generateRandomString_loop rnd len 0 []"

text \<open>\<^verbatim>\<open>sha256\<close>: the digest is CryptoJS's, a parameter here (\<open>None\<close> when the
  library call throws).\<close>

definition sha256 :: "(string \<Rightarrow> string option) \<Rightarrow> string \<Rightarrow> js_error + string" where
  "sha256 digest plain =
     (case digest plain of
        None \<Rightarrow> Inl (Error ''Crypto API not available'')
      | Some h \<Rightarrow> Inr h)"

text \<open>
  The first part of \<^verbatim>\<open>authorize\<close>, up to the opening of the window: the entries
  appended to \<^verbatim>\<open>url.searchParams\<close>, in the order of the calls, and the manager with
  the verifier kept.
\<close>

definition authorize_searchParams ::
  "(nat \<Rightarrow> real) \<Rightarrow> (string \<Rightarrow> string option) \<Rightarrow> browser
     \<Rightarrow> (js_error + (string \<times> string) list) \<times> browser" where
  "authorize_searchParams rnd digest m =
     (let ps = [(''client_id'', clientID m), (''redirect_uri'', redirectURI m),
                (''response_type'', responseType m)]
               @ (if truthy (scope m) then [(''scope'', js_String (scope m))] else [])
      in if withPKCE m then
           (let v = generateRandomString rnd 64;
                m1 = m\<lparr> codeVerifier := JStr v \<rparr>
            in case sha256 digest v of
                 Inl e \<Rightarrow> (Inl e, m1)
               | Inr codeChallenge \<Rightarrow>
                   (Inr (ps @ [(''code_challenge'', codeChallenge),
                               (''code_challenge_method'', ''S256'')]),
                    m1\<lparr> storage := storage_set (storage m1) ''code_verifier'' (JStr v) \<rparr>))
         else (Inr ps, m))"

section \<open>The Node variant\<close>

record node = manager +
  clientId :: string
  clientSecret :: string
  redirectUri :: string
  state :: string
  authUrl :: string
  tokenUrl :: string
  revokeUrl :: string
  userInfoUrl :: string
  expiry :: jsval
  idToken :: jsval
  hmacSecret :: jsval

text \<open>\<^verbatim>\<open>saveTokens(data)\<close> at time \<open>now\<close> (\<^verbatim>\<open>Date.now()\<close>).\<close>

definition saveTokens :: "node \<Rightarrow> int \<Rightarrow> (string \<rightharpoonup> jsval) \<Rightarrow> node" where
  "saveTokens m now d =
     (let m1 = m\<lparr> accessToken := prop_of d ''access_token'',
                   refreshToken := js_or (prop_of d ''refresh_token'') JNull,
                   expiry := (if truthy (prop_of d ''expires_in'')
                              then js_plus (JNum now)
                                     (js_times (prop_of d ''expires_in'') (JNum 1000))
                              else JNull),
                   idToken := js_or (prop_of d ''id_token'') JNull \<rparr>;
          s1 = storage_set (storage m1) ''access_token'' (accessToken m1);
          s2 = (if truthy (refreshToken m1)
                then storage_set s1 ''refresh_token'' (refreshToken m1) else s1);
          s3 = (if truthy (expiry m1)
                then storage_set s2 ''expiry'' (JStr (js_String (expiry m1))) else s2);
          s4 = (if truthy (idToken m1)
                then storage_set s3 ''id_token'' (idToken m1) else s3)
      in m1\<lparr> storage := s4 \<rparr>)"

definition clearTokens :: "node \<Rightarrow> node" where
  "clearTokens m =
     (let s1 = storage_remove (storage m) ''access_token'';
          s2 = storage_remove s1 ''refresh_token'';
          s3 = storage_remove s2 ''expiry'';
          s4 = storage_remove s3 ''id_token''
      in m\<lparr> accessToken := JNull, refreshToken := JNull, expiry := JNull,
            idToken := JNull, storage := s4 \<rparr>)"

text \<open>
  \<^verbatim>\<open>URLSearchParams.toString()\<close>: every byte of a name or value stays as it is
  when it is an ASCII letter, a digit or one of \<^verbatim>\<open>*-._\<close>, a space becomes \<^verbatim>\<open>+\<close>,
  every other byte becomes \<^verbatim>\<open>%XX\<close>; the pairs are joined by \<^verbatim>\<open>&\<close> in the order
  of the object's properties.
\<close>

definition urlencoded_byte :: "char \<Rightarrow> string" where
  "urlencoded_byte c =
     (if c = CHR 0x20 then ''+''
      else if c \<in> set ''ABCDEFGHIJKLMNOPQRSTUVWXYZabcdefghijklmnopqrstuvwxyz0123456789*-._''
      then [c]
      else [CHR ''%'', hex_upper (of_char c div 16), hex_upper (of_char c mod 16)])"

definition urlencoded_string :: "string \<Rightarrow> string" where
  "urlencoded_string s = concat (map urlencoded_byte s)"

definition urlencoded_pair :: "string \<times> string \<Rightarrow> string" where
  "urlencoded_pair p = urlencoded_string (fst p) @ ''='' @ urlencoded_string (snd p)"

definition URLSearchParams_toString :: "(string \<times> string) list \<Rightarrow> string" where
  "URLSearchParams_toString ps = join ''&'' (map urlencoded_pair ps)"

definition getAuthorizationUrl_params :: "node \<Rightarrow> (string \<times> string) list" where
  "getAuthorizationUrl_params m =
     [(''response_type'', responseType m), (''client_id'', clientId m),
      (''redirect_uri'', redirectUri m), (''scope'', js_String (scope m)),
      (''state'', state m)]"

definition getAuthorizationUrl :: "node \<Rightarrow> string" where
  "getAuthorizationUrl m =
     authUrl m @ ''?'' @ URLSearchParams_toString (getAuthorizationUrl_params m)"

text \<open>
  \<^verbatim>\<open>generateHmacSignature\<close>: the keyed digest is Node's
  \<^verbatim>\<open>crypto.createHmac('sha256', key).update(data).digest('hex')\<close>, a parameter
  \<open>hmac key data\<close> here.
\<close>

definition generateHmacSignature ::
  "(string \<Rightarrow> string \<Rightarrow> string) \<Rightarrow> node \<Rightarrow> string \<Rightarrow> js_error + string" where
  "generateHmacSignature hmac m d =
     (if \<not> truthy (hmacSecret m) then Inl (Error ''HMAC secret is not provided'')
      else Inr (hmac (js_String (hmacSecret m)) d))"

text \<open>The headers the three exchange requests build: the content type, and the
  signature of the serialized body when a secret is set.\<close>

definition json_headers ::
  "(string \<Rightarrow> string \<Rightarrow> string) \<Rightarrow> node \<Rightarrow> string \<Rightarrow> js_error + (string \<times> string) list" where
  "json_headers hmac m payload =
     (if truthy (hmacSecret m) then
        (case generateHmacSignature hmac m payload of
           Inl e \<Rightarrow> Inl e
         | Inr sig \<Rightarrow> Inr [(''Content-Type'', ''application/json''),
                           (''X-HMAC-Signature'', sig)])
      else Inr [(''Content-Type'', ''application/json'')])"

text \<open>The two token requests end alike: \<^verbatim>\<open>await fetch\<close>, \<^verbatim>\<open>await response.json()\<close>,
  \<^verbatim>\<open>saveTokens\<close>; a rejection of either leaves the manager as it was.\<close>

definition token_exchange ::
  "node \<Rightarrow> int \<Rightarrow> request \<Rightarrow> fetch_result \<Rightarrow> (js_error + unit) \<times> node \<times> request list" where
  "token_exchange m now rq res =
     (case res of
        Rejected \<Rightarrow> (Inl FetchRejected, m, [rq])
      | Responded r \<Rightarrow>
          (case json r of
             None \<Rightarrow> (Inl JsonRejected, m, [rq])
           | Some d \<Rightarrow> (Inr (), saveTokens m now d, [rq])))"

definition fetchToken ::
  "(string \<Rightarrow> string \<Rightarrow> string) \<Rightarrow> node \<Rightarrow> int \<Rightarrow> string \<Rightarrow> fetch_result
     \<Rightarrow> (js_error + unit) \<times> node \<times> request list" where
  "fetchToken hmac m now code res =
     (let payload = JSON_stringify
            [(''grant_type'', JStr ''authorization_code''), (''code'', JStr code),
             (''redirect_uri'', JStr (redirectUri m)), (''client_id'', JStr (clientId m)),
             (''client_secret'', JStr (clientSecret m))]
      in case json_headers hmac m payload of
           Inl e \<Rightarrow> (Inl e, m, [])
         | Inr hs \<Rightarrow>
             token_exchange m now
               \<lparr> url = tokenUrl m, http_method = ''POST'', headers = hs,
                 body = Some payload \<rparr> res)"

definition refreshAccessToken ::
  "(string \<Rightarrow> string \<Rightarrow> string) \<Rightarrow> node \<Rightarrow> int \<Rightarrow> fetch_result
     \<Rightarrow> (js_error + unit) \<times> node \<times> request list" where
  "refreshAccessToken hmac m now res =
     (if \<not> truthy (refreshToken m) then (Inl (Error ''No refresh token available''), m, [])
      else
        (let payload = JSON_stringify
               [(''grant_type'', JStr ''refresh_token''),
                (''refresh_token'', refreshToken m),
                (''client_id'', JStr (clientId m)),
                (''client_secret'', JStr (clientSecret m))]
         in case json_headers hmac m payload of
              Inl e \<Rightarrow> (Inl e, m, [])
            | Inr hs \<Rightarrow>
                token_exchange m now
                  \<lparr> url = tokenUrl m, http_method = ''POST'', headers = hs,
                    body = Some payload \<rparr> res))"

text \<open>\<^verbatim>\<open>revokeToken\<close> of the Node variant: \<^verbatim>\<open>clearTokens\<close> follows
  \<^verbatim>\<open>await fetch\<close>, so it runs for every response and not after a rejection.\<close>

definition revokeToken_node ::
  "(string \<Rightarrow> string \<Rightarrow> string) \<Rightarrow> node \<Rightarrow> fetch_result
     \<Rightarrow> (js_error + unit) \<times> node \<times> request list" where
  "revokeToken_node hmac m res =
     (if \<not> truthy (accessToken m) then (Inl (Error ''No access token available''), m, [])
      else
        (let payload = JSON_stringify [(''token'', accessToken m)]
         in case json_headers hmac m payload of
              Inl e \<Rightarrow> (Inl e, m, [])
            | Inr hs \<Rightarrow>
                (let rq = \<lparr> url = revokeUrl m, http_method = ''POST'', headers = hs,
                            body = Some payload \<rparr>
                 in case res of
                      Rejected \<Rightarrow> (Inl FetchRejected, m, [rq])
                    | Responded r \<Rightarrow> (Inr (), clearTokens m, [rq]))))"

text \<open>\<^verbatim>\<open>fetchUserInfo\<close>: the guard is the access token; the expiry is not read.\<close>

definition fetchUserInfo ::
  "(string \<Rightarrow> string \<Rightarrow> string) \<Rightarrow> node \<Rightarrow> fetch_result
     \<Rightarrow> (js_error + (string \<rightharpoonup> jsval)) \<times> request list" where
  "fetchUserInfo hmac m res =
     (if \<not> truthy (accessToken m) then (Inl (Error ''No access token available''), [])
      else
        (let auth = [(''Authorization'', ''Bearer '' @ js_String (accessToken m))]
         in case (if truthy (hmacSecret m)
                  then (case generateHmacSignature hmac m (js_String (accessToken m)) of
                          Inl e \<Rightarrow> Inl e
                        | Inr sig \<Rightarrow> Inr (auth @ [(''X-HMAC-Signature'', sig)]))
                  else Inr auth) of
              Inl e \<Rightarrow> (Inl e, [])
            | Inr hs \<Rightarrow>
                (let rq = \<lparr> url = userInfoUrl m, http_method = ''GET'', headers = hs,
                            body = None \<rparr>
                 in case res of
                      Rejected \<Rightarrow> (Inl FetchRejected, [rq])
                    | Responded r \<Rightarrow>
                        (case json r of
                           None \<Rightarrow> (Inl JsonRejected, [rq])
                         | Some d \<Rightarrow> (Inr d, [rq])))))"

text \<open>A Node manager holding tokens, with and without an HMAC secret, and the token
  response of the specification's example.\<close>

definition node0 :: node where
  "node0 =
     \<lparr> scope = JStr ''openid profile'', responseType = ''code'',
       storage = [''access_token'' \<mapsto> ''A'', ''refresh_token'' \<mapsto> ''R'',
                  ''expiry'' \<mapsto> ''1700000003600'', ''id_token'' \<mapsto> ''I''],
       accessToken = JStr ''A'', refreshToken = JStr ''R'',
       clientId = ''client'', clientSecret = ''secret'',
       redirectUri = ''https://app.example/cb'', state = ''xyz'',
       authUrl = ''https://api.beyondigital.in/o/authorize'',
       tokenUrl = ''https://api.beyondigital.in/o/token'',
       revokeUrl = ''https://api.beyondigital.in/o/revoke-token'',
       userInfoUrl = ''https://api.beyondigital.in/o/userinfo'',
       expiry = JNum 1700000003600, idToken = JStr ''I'', hmacSecret = JNull \<rparr>"

definition example_response :: "string \<rightharpoonup> jsval" where
  "example_response =
     [''access_token'' \<mapsto> JStr ''A'', ''refresh_token'' \<mapsto> JStr ''R'',
      ''expires_in'' \<mapsto> JNum 3600]"

text \<open>A Node manager that holds nothing yet.\<close>

definition node_fresh :: node where
  "node_fresh = node0\<lparr> storage := Map.empty, accessToken := JNull, refreshToken := JNull,
                       expiry := JNull, idToken := JNull \<rparr>"

text \<open>Further states used below: a browser manager that holds an access token and no
  refresh token; one that holds no access token; one with no expiry stored; a Node
  manager whose expiry is long past; one with an HMAC secret; one with an empty scope.\<close>

definition browser_no_refresh :: browser where
  "browser_no_refresh =
     browser0\<lparr> refreshToken := JNull,
                storage := [''access_token'' \<mapsto> ''A'', ''expires_at'' \<mapsto> ''1700000003600''] \<rparr>"

definition browser_logged_out :: browser where
  "browser_logged_out =
     browser0\<lparr> accessToken := JNull,
                storage := [''refresh_token'' \<mapsto> ''R'', ''expires_in'' \<mapsto> ''3600'',
                            ''expires_at'' \<mapsto> ''1700000003600''] \<rparr>"

definition browser_no_expiry :: browser where
  "browser_no_expiry = browser0\<lparr> storage := [''access_token'' \<mapsto> ''A''] \<rparr>"

definition node_expired :: node where
  "node_expired =
     node0\<lparr> expiry := JNum 1000, storage := (storage node0)(''expiry'' \<mapsto> ''1000'') \<rparr>"

definition node_signing :: node where
  "node_signing = node0\<lparr> hmacSecret := JStr ''k3y'' \<rparr>"

definition node_empty_scope :: node where
  "node_empty_scope = node0\<lparr> scope := JStr [] \<rparr>"

text \<open>A character that cannot be taken for a separator of a query string.\<close>

definition url_safe :: "char \<Rightarrow> bool" where
  "url_safe x = (x \<noteq> CHR ''&'' \<and> x \<noteq> CHR ''='' \<and> x \<noteq> CHR ''?'')"

section \<open>Shared facts\<close>

lemma storage_simps [simp]:
  "storage_remove st k k' = (if k' = k then None else st k')"
  "storage_set st k v k' = (if k' = k then Some (js_String v) else st k')"
  by (simp_all add: storage_remove_def storage_set_def)

lemma round_double_exact: "\<bar>n\<bar> \<le> 9007199254740992 \<Longrightarrow> round_double n = n"
  by (simp add: round_double_def)

lemma decimal_example: "decimal 1700003600000 = ''1700003600000''"
  by (simp add: decimal_def digits_of.simps)

text \<open>The headers of an exchange request never fail to build: the signature is asked
  for only when the secret is there.\<close>

lemma json_headers_Inr:
  "json_headers hmac m p =
     Inr (if truthy (hmacSecret m)
          then [(''Content-Type'', ''application/json''),
                (''X-HMAC-Signature'', hmac (js_String (hmacSecret m)) p)]
          else [(''Content-Type'', ''application/json'')])"
  by (simp add: json_headers_def generateHmacSignature_def)

lemma clearTokens_fields:
  "accessToken (clearTokens m) = JNull" "refreshToken (clearTokens m) = JNull"
  "expiry (clearTokens m) = JNull" "idToken (clearTokens m) = JNull"
  "storage (clearTokens m) ''access_token'' = None"
  "storage (clearTokens m) ''refresh_token'' = None"
  "storage (clearTokens m) ''expiry'' = None"
  "storage (clearTokens m) ''id_token'' = None"
  by (simp_all add: clearTokens_def Let_def)

text \<open>What \<^verbatim>\<open>saveTokens\<close> computes for the expiry, in doubles; and the same where
  the product and the sum are exact.\<close>

lemma saveTokens_expiry_rounded:
  assumes "prop_of d ''expires_in'' = JNum e" and "e \<noteq> 0"
  shows "expiry (saveTokens m now d) = JNum (round_double (now + round_double (e * 1000)))"
    and "storage (saveTokens m now d) ''expiry'' =
           (if round_double (now + round_double (e * 1000)) = 0 then storage m ''expiry''
            else Some (decimal (round_double (now + round_double (e * 1000)))))"
  using assms by (simp_all add: saveTokens_def Let_def js_plus_def js_times_def)

lemma saveTokens_expiry:
  assumes "prop_of d ''expires_in'' = JNum e" and "e \<noteq> 0"
    and "\<bar>e * 1000\<bar> \<le> 9007199254740992" and "\<bar>now + e * 1000\<bar> \<le> 9007199254740992"
  shows "expiry (saveTokens m now d) = JNum (now + e * 1000)"
    and "storage (saveTokens m now d) ''expiry'' =
           (if now + e * 1000 = 0 then storage m ''expiry''
            else Some (decimal (now + e * 1000)))"
  using saveTokens_expiry_rounded [OF assms(1,2), of m now] assms(3,4)
  by (simp_all add: round_double_exact)

lemma saveTokens_no_expiry:
  "\<not> truthy (prop_of d ''expires_in'') \<Longrightarrow> expiry (saveTokens m now d) = JNull"
  "\<not> truthy (prop_of d ''expires_in'') \<Longrightarrow>
   storage (saveTokens m now d) ''expiry'' = storage m ''expiry''"
  by (simp_all add: saveTokens_def Let_def)

lemma bitlen_example: "bitlen 9008899254740001 = 54"
  by (simp add: bitlen.simps)

lemma round_double_example: "round_double 9008899254740001 = 9008899254740000"
  by (simp add: round_double_def Let_def bitlen_example)

lemma saveTokens_tokens:
  "accessToken (saveTokens m now d) = prop_of d ''access_token''"
  "storage (saveTokens m now d) ''access_token'' = Some (js_String (prop_of d ''access_token''))"
  "refreshToken (saveTokens m now d) = js_or (prop_of d ''refresh_token'') JNull"
  "storage (saveTokens m now d) ''refresh_token'' =
     (if truthy (prop_of d ''refresh_token'')
      then Some (js_String (prop_of d ''refresh_token'')) else storage m ''refresh_token'')"
  "idToken (saveTokens m now d) = js_or (prop_of d ''id_token'') JNull"
  "storage (saveTokens m now d) ''id_token'' =
     (if truthy (prop_of d ''id_token'')
      then Some (js_String (prop_of d ''id_token'')) else storage m ''id_token'')"
  by (simp_all add: saveTokens_def Let_def js_or_def)

lemma saveTokens_other_keys:
  "k \<noteq> ''access_token'' \<Longrightarrow> k \<noteq> ''refresh_token'' \<Longrightarrow> k \<noteq> ''expiry'' \<Longrightarrow>
   k \<noteq> ''id_token'' \<Longrightarrow> storage (saveTokens m now d) k = storage m k"
  by (simp add: saveTokens_def Let_def)

section \<open>Validity check\<close>

text \<open>The TypeScript port does what the validity claim asks: it never throws, and it
  answers true exactly when a non-empty expiry is stored whose number is greater than
  the current time. (The number of a stored string is \<open>StringToNumber\<close>, which is
  JavaScript's on the runs of digits the program writes.)\<close>

lemma isTokenValid_ts_iff:
  "isTokenValid m now =
     (\<exists>s n. storage m ''expires_at'' = Some s \<and> s \<noteq> [] \<and>
            StringToNumber s = JNum n \<and> now < n)"
  by (auto simp: isTokenValid_def storage_get_def num_lt_def Let_def
           split: option.splits jsval.splits)

lemma isTokenValid_ts_absent:
  "storage m ''expires_at'' = None \<Longrightarrow> isTokenValid m now = False"
  by (simp add: isTokenValid_def storage_get_def)

text \<open>In \<^verbatim>\<open>index.js\<close> the check can only answer false or throw.\<close>

lemma isTokenValid_js_never_true: "isTokenValid_js m now \<noteq> Inr True"
  by (simp add: isTokenValid_js_def Let_def)

text \<open>
  Claim C1. The validity check returns true iff a stored expiry is present and
  strictly greater than the current time, false when none is stored, and never
  throws. In \<^verbatim>\<open>index.js\<close> the check throws whenever the key \<^verbatim>\<open>expires_in\<close>
  holds a non-empty string: at the state left by a code exchange, one millisecond
  after it, \<^verbatim>\<open>isTokenValid\<close> ends in a \<^verbatim>\<open>ReferenceError\<close>, where the TypeScript
  port answers true before the expiry and false from the expiry on.
\<close>

theorem isTokenValid_js_throws:
  "isTokenValid_js browser0 1700000000001 = Inl (ReferenceError ''expiresAt is not defined'')
   \<and> isTokenValid browser0 1700000000001 = True
   \<and> isTokenValid browser0 1700000003600 = False"
  by (simp add: isTokenValid_js_def isTokenValid_def browser0_def storage_get_def
        num_lt_def StringToNumber_def trim_def is_ws_def unsigned_decimal_def is_digit_def
        round_double_exact)

section \<open>Revocation\<close>

lemma revokeToken_node_responded:
  "truthy (accessToken m) \<Longrightarrow>
   revokeToken_node hmac m (Responded r) =
     (Inr (), clearTokens m,
      [\<lparr> url = revokeUrl m, http_method = ''POST'',
         headers = (if truthy (hmacSecret m)
                    then [(''Content-Type'', ''application/json''),
                          (''X-HMAC-Signature'',
                           hmac (js_String (hmacSecret m))
                             (JSON_stringify [(''token'', accessToken m)]))]
                    else [(''Content-Type'', ''application/json'')]),
         body = Some (JSON_stringify [(''token'', accessToken m)]) \<rparr>])"
  by (simp add: revokeToken_node_def json_headers_Inr Let_def)

text \<open>Without an access token either \<^verbatim>\<open>revokeToken\<close> throws before any request.\<close>

lemma revokeToken_requires_access_token:
  "\<not> truthy (accessToken m) \<Longrightarrow>
   revokeToken_node hmac m res = (Inl (Error ''No access token available''), m, [])"
  "\<not> truthy (accessToken b) \<Longrightarrow>
   revokeToken b res = (Inl (Error ''No access token found''), b, [])"
  by (simp_all add: revokeToken_node_def revokeToken_def revokeToken_call_def)

text \<open>The browser \<^verbatim>\<open>revokeToken\<close> clears in its handler only: when the request
  fails or the body is not JSON the manager is as before, and in no case are the
  expiry keys removed.\<close>

lemma revokeToken_browser_keeps_expiry_keys:
  "truthy (accessToken b) \<Longrightarrow>
   (case revokeToken b res of
      (r, b', reqs) \<Rightarrow>
        r = Inr () \<and> length reqs = 1 \<and>
        (if parsed res = None then b' = b
         else accessToken b' = JNull \<and> refreshToken b' = JNull \<and>
              storage b' ''access_token'' = None \<and> storage b' ''refresh_token'' = None) \<and>
        storage b' ''expires_in'' = storage b ''expires_in'' \<and>
        storage b' ''expiry'' = storage b ''expiry'' \<and>
        storage b' ''expires_at'' = storage b ''expires_at'')"
  by (cases "parsed res")
     (simp_all add: revokeToken_def revokeToken_call_def revokeToken_settle_def
        revokeToken_then_def)

text \<open>
  Claim C2 (as amended, for the Node variant). With an access token held,
  \<^verbatim>\<open>revokeToken\<close> clears the four in-memory fields and removes the keys
  \<^verbatim>\<open>access_token\<close>, \<^verbatim>\<open>refresh_token\<close>, \<^verbatim>\<open>expiry\<close> and \<^verbatim>\<open>id_token\<close> whenever
  the request gets a response, whatever its status; when the transport fails the
  call rejects and the manager is as before.
\<close>

theorem revoke_clears_on_response:
  assumes "truthy (accessToken m)"
  shows
    "(case revokeToken_node hmac m (Responded r) of
        (res, m', reqs) \<Rightarrow>
          res = Inr () \<and> length reqs = 1 \<and>
          accessToken m' = JNull \<and> refreshToken m' = JNull \<and>
          expiry m' = JNull \<and> idToken m' = JNull \<and>
          storage m' ''access_token'' = None \<and> storage m' ''refresh_token'' = None \<and>
          storage m' ''expiry'' = None \<and> storage m' ''id_token'' = None)
     \<and> (case revokeToken_node hmac m Rejected of
          (res, m', reqs) \<Rightarrow> res = Inl FetchRejected \<and> m' = m \<and> length reqs = 1)"
proof -
  have "(case revokeToken_node hmac m Rejected of
           (res, m', reqs) \<Rightarrow> res = Inl FetchRejected \<and> m' = m \<and> length reqs = 1)"
    using assms by (simp add: revokeToken_node_def json_headers_Inr Let_def)
  then show ?thesis
    using assms by (simp add: revokeToken_node_responded clearTokens_fields)
qed

theorem revoke_clears_on_response_witness:
  "truthy (accessToken node0) \<and>
   (case revokeToken_node (\<lambda>k d. []) node0 (Responded \<lparr> status = 500, json = None \<rparr>) of
      (res, m', reqs) \<Rightarrow>
        res = Inr () \<and> accessToken m' = JNull \<and> refreshToken m' = JNull \<and>
        expiry m' = JNull \<and> idToken m' = JNull \<and>
        storage m' ''access_token'' = None \<and> storage m' ''refresh_token'' = None \<and>
        storage m' ''expiry'' = None \<and> storage m' ''id_token'' = None) \<and>
   fst (revokeToken_node (\<lambda>k d. []) node0 Rejected) = Inl FetchRejected \<and>
   fst (snd (revokeToken_node (\<lambda>k d. []) node0 Rejected)) = node0"
  using revoke_clears_on_response
          [where m = node0 and hmac = "\<lambda>k d. []"
             and r = "\<lparr> status = 500, json = None \<rparr>"]
  by (simp add: node0_def split: prod.splits)

text \<open>
  Claim C2 as stated fails when the transport fails: \<^verbatim>\<open>await fetch\<close> rejects,
  \<^verbatim>\<open>clearTokens\<close> is never reached, and the manager and its four keys are as before.
\<close>

theorem revoke_transport_failure_keeps_tokens:
  "(case revokeToken_node (\<lambda>k d. []) node0 Rejected of
      (res, m', reqs) \<Rightarrow>
        res = Inl FetchRejected \<and> accessToken m' = JStr ''A'' \<and>
        refreshToken m' = JStr ''R'' \<and>
        storage m' ''access_token'' = Some ''A'' \<and>
        storage m' ''refresh_token'' = Some ''R'' \<and>
        storage m' ''expiry'' = Some ''1700000003600'' \<and>
        storage m' ''id_token'' = Some ''I'')"
  by (simp add: revokeToken_node_def json_headers_Inr node0_def Let_def)

section \<open>Code exchange\<close>

lemma fetchToken_responded:
  "json r = Some d \<Longrightarrow>
   fetchToken hmac m now code (Responded r) =
     (Inr (), saveTokens m now d, snd (snd (fetchToken hmac m now code (Responded r))))"
  by (simp add: fetchToken_def json_headers_Inr token_exchange_def Let_def)

text \<open>The handler of \<^verbatim>\<open>index.js\<close> adds the lifetime in seconds to the time in
  milliseconds, with no factor 1000.\<close>

lemma getAccessToken_then_expiry:
  "prop_of d ''expires_in'' = JNum e \<Longrightarrow>
   storage (getAccessToken_then m now d) ''expiry'' = Some (decimal (round_double (e + now)))"
  by (simp add: getAccessToken_then_def Let_def js_plus_def)

text \<open>
  Claim C3 (as amended, for the Node variant). When the response to the code
  exchange parses and carries an integer \<^verbatim>\<open>expires_in\<close> other than 0, and
  \<open>now\<close>, \<open>expires_in * 1000\<close> and their sum are at most \<open>2^53\<close> in magnitude
  (where the numbers of JavaScript are exact), \<^verbatim>\<open>fetchToken\<close> leaves
  \<open>expiry = now + expires_in * 1000\<close> in memory and, unless that sum is 0, its
  decimal string under the key \<^verbatim>\<open>expiry\<close>; the key \<^verbatim>\<open>access_token\<close> is always
  written; the keys \<^verbatim>\<open>refresh_token\<close> and \<^verbatim>\<open>id_token\<close> are written when the
  response carries a non-empty value and keep their old content otherwise.
\<close>

theorem fetchToken_persists:
  assumes "json r = Some d" and "prop_of d ''expires_in'' = JNum e" and "e \<noteq> 0"
    and "\<bar>now\<bar> \<le> 9007199254740992" and "\<bar>e * 1000\<bar> \<le> 9007199254740992"
    and "\<bar>now + e * 1000\<bar> \<le> 9007199254740992"
  shows
    "case fetchToken hmac m now code (Responded r) of
       (res, m', reqs) \<Rightarrow>
         res = Inr () \<and>
         expiry m' = JNum (now + e * 1000) \<and>
         storage m' ''expiry'' =
           (if now + e * 1000 = 0 then storage m ''expiry''
            else Some (decimal (now + e * 1000))) \<and>
         accessToken m' = prop_of d ''access_token'' \<and>
         storage m' ''access_token'' = Some (js_String (prop_of d ''access_token'')) \<and>
         refreshToken m' = js_or (prop_of d ''refresh_token'') JNull \<and>
         storage m' ''refresh_token'' =
           (if truthy (prop_of d ''refresh_token'')
            then Some (js_String (prop_of d ''refresh_token''))
            else storage m ''refresh_token'') \<and>
         idToken m' = js_or (prop_of d ''id_token'') JNull \<and>
         storage m' ''id_token'' =
           (if truthy (prop_of d ''id_token'')
            then Some (js_String (prop_of d ''id_token''))
            else storage m ''id_token'')"
proof -
  obtain rq where "fetchToken hmac m now code (Responded r) = (Inr (), saveTokens m now d, rq)"
    using fetchToken_responded [OF assms(1)] by blast
  then show ?thesis
    using saveTokens_expiry [OF assms(2,3,5,6), of m] by (simp add: saveTokens_tokens)
qed

theorem fetchToken_persists_witness:
  "json \<lparr> status = 200, json = Some example_response \<rparr> = Some example_response \<and>
   prop_of example_response ''expires_in'' = JNum 3600 \<and>
   (3600 :: int) \<noteq> 0 \<and> \<bar>1700000000000 :: int\<bar> \<le> 9007199254740992 \<and>
   \<bar>3600 * 1000 :: int\<bar> \<le> 9007199254740992 \<and>
   \<bar>1700000000000 + 3600 * 1000 :: int\<bar> \<le> 9007199254740992 \<and>
   (case fetchToken (\<lambda>k d. []) node_fresh 1700000000000 ''c0de''
           (Responded \<lparr> status = 200, json = Some example_response \<rparr>) of
      (res, m', reqs) \<Rightarrow>
        res = Inr () \<and> accessToken m' = JStr ''A'' \<and> refreshToken m' = JStr ''R'' \<and>
        expiry m' = JNum 1700003600000 \<and>
        storage m' ''access_token'' = Some ''A'' \<and>
        storage m' ''refresh_token'' = Some ''R'' \<and>
        storage m' ''expiry'' = Some ''1700003600000'')"
  using fetchToken_persists
          [where r = "\<lparr> status = 200, json = Some example_response \<rparr>"
             and d = example_response and e = 3600 and now = 1700000000000
             and hmac = "\<lambda>k d. []" and m = node_fresh and code = "''c0de''"]
  by (simp add: example_response_def prop_of_def js_or_def decimal_example split: prod.splits)

text \<open>
  Claim C3 as stated fails on the Node variant in five ways, each at a response that
  parses, on a fresh manager. Its own example
  \<^verbatim>\<open>{access_token: "A", refresh_token: "R", expires_in: 3600}\<close> leaves three keys,
  not four (no \<^verbatim>\<open>id_token\<close>, and there is no \<^verbatim>\<open>expires_in\<close> key). A response
  without \<^verbatim>\<open>refresh_token\<close> writes no \<^verbatim>\<open>refresh_token\<close> key. With
  \<^verbatim>\<open>expires_in: 0\<close> the expiry is \<^verbatim>\<open>null\<close> and no \<^verbatim>\<open>expiry\<close> key is written.
  When the sum is 0 the key is not written either. And beyond \<open>2^53\<close> the stored
  expiry is the rounded sum, not \<open>now + expires_in * 1000\<close>.
\<close>

theorem fetchToken_example_three_keys:
  "(case fetchToken (\<lambda>k d. []) node_fresh 1700000000000 ''c0de''
           (Responded \<lparr> status = 200, json = Some example_response \<rparr>) of
      (res, m', reqs) \<Rightarrow>
        res = Inr () \<and> storage m' ''id_token'' = None \<and> idToken m' = JNull \<and>
        storage m' ''expires_in'' = None)
   \<and> (case fetchToken (\<lambda>k d. []) node_fresh 1700000000000 ''c0de''
           (Responded \<lparr> status = 200,
              json = Some [''access_token'' \<mapsto> JStr ''A'', ''expires_in'' \<mapsto> JNum 3600] \<rparr>) of
      (res, m', reqs) \<Rightarrow>
        res = Inr () \<and> storage m' ''refresh_token'' = None \<and> refreshToken m' = JNull)
   \<and> (case fetchToken (\<lambda>k d. []) node_fresh 1700000000000 ''c0de''
           (Responded \<lparr> status = 200,
              json = Some [''access_token'' \<mapsto> JStr ''A'', ''refresh_token'' \<mapsto> JStr ''R'',
                           ''expires_in'' \<mapsto> JNum 0] \<rparr>) of
      (res, m', reqs) \<Rightarrow>
        res = Inr () \<and> expiry m' = JNull \<and> storage m' ''expiry'' = None)
   \<and> (case fetchToken (\<lambda>k d. []) node_fresh 1000 ''c0de''
           (Responded \<lparr> status = 200,
              json = Some [''access_token'' \<mapsto> JStr ''A'', ''refresh_token'' \<mapsto> JStr ''R'',
                           ''expires_in'' \<mapsto> JNum (- 1)] \<rparr>) of
      (res, m', reqs) \<Rightarrow>
        res = Inr () \<and> expiry m' = JNum 0 \<and> storage m' ''expiry'' = None)
   \<and> (case fetchToken (\<lambda>k d. []) node_fresh 1700000000001 ''c0de''
           (Responded \<lparr> status = 200,
              json = Some [''access_token'' \<mapsto> JStr ''A'', ''refresh_token'' \<mapsto> JStr ''R'',
                           ''expires_in'' \<mapsto> JNum 9007199254740] \<rparr>) of
      (res, m', reqs) \<Rightarrow>
        res = Inr () \<and> expiry m' = JNum 9008899254740000 \<and>
        (1700000000001 :: int) + 9007199254740 * 1000 = 9008899254740001)"
proof -
  have st: "storage node_fresh = Map.empty"
    by (simp add: node_fresh_def)
  have ev: "\<And>now d. fetchToken (\<lambda>k d. []) node_fresh now ''c0de''
                    (Responded \<lparr> status = 200, json = Some d \<rparr>) =
                  (Inr (), saveTokens node_fresh now d,
                   snd (snd (fetchToken (\<lambda>k d. []) node_fresh now ''c0de''
                               (Responded \<lparr> status = 200, json = Some d \<rparr>))))"
    by (rule fetchToken_responded) simp
  have a: "storage (saveTokens node_fresh 1700000000000 example_response) ''id_token'' = None
           \<and> idToken (saveTokens node_fresh 1700000000000 example_response) = JNull
           \<and> storage (saveTokens node_fresh 1700000000000 example_response) ''expires_in''
               = None"
    by (simp add: saveTokens_tokens saveTokens_other_keys example_response_def prop_of_def
          js_or_def st)
  have b: "storage (saveTokens node_fresh 1700000000000
                      [''access_token'' \<mapsto> JStr ''A'', ''expires_in'' \<mapsto> JNum 3600])
             ''refresh_token'' = None
           \<and> refreshToken (saveTokens node_fresh 1700000000000
                      [''access_token'' \<mapsto> JStr ''A'', ''expires_in'' \<mapsto> JNum 3600]) = JNull"
    by (simp add: saveTokens_tokens prop_of_def js_or_def st)
  have c: "expiry (saveTokens node_fresh 1700000000000
                      [''access_token'' \<mapsto> JStr ''A'', ''refresh_token'' \<mapsto> JStr ''R'',
                       ''expires_in'' \<mapsto> JNum 0]) = JNull
           \<and> storage (saveTokens node_fresh 1700000000000
                      [''access_token'' \<mapsto> JStr ''A'', ''refresh_token'' \<mapsto> JStr ''R'',
                       ''expires_in'' \<mapsto> JNum 0]) ''expiry'' = None"
    by (simp add: saveTokens_no_expiry prop_of_def st)
  have d: "expiry (saveTokens node_fresh 1000
                      [''access_token'' \<mapsto> JStr ''A'', ''refresh_token'' \<mapsto> JStr ''R'',
                       ''expires_in'' \<mapsto> JNum (- 1)]) = JNum 0
           \<and> storage (saveTokens node_fresh 1000
                      [''access_token'' \<mapsto> JStr ''A'', ''refresh_token'' \<mapsto> JStr ''R'',
                       ''expires_in'' \<mapsto> JNum (- 1)]) ''expiry'' = None"
    by (simp add: saveTokens_expiry prop_of_def st)
  have e: "expiry (saveTokens node_fresh 1700000000001
                      [''access_token'' \<mapsto> JStr ''A'', ''refresh_token'' \<mapsto> JStr ''R'',
                       ''expires_in'' \<mapsto> JNum 9007199254740]) = JNum 9008899254740000"
    by (simp add: saveTokens_expiry_rounded prop_of_def round_double_exact
          round_double_example)
  show ?thesis
    apply (intro conjI)
        apply (subst ev, simp add: a)
       apply (subst ev, simp add: b)
      apply (subst ev, simp add: c)
     apply (subst ev, simp add: d)
    apply (subst ev, simp add: e)
    done
qed

section \<open>Refresh\<close>

text \<open>The Node variant guards the refresh: with no refresh token it throws before any
  request and leaves the manager as it was.\<close>

lemma refreshAccessToken_requires_refresh_token:
  "\<not> truthy (refreshToken m) \<Longrightarrow>
   refreshAccessToken hmac m now res = (Inl (Error ''No refresh token available''), m, [])"
  by (simp add: refreshAccessToken_def)

text \<open>
  Claim C4. With no refresh token held, refresh fails with an error, issues no
  request and leaves the token state unchanged. The browser variants have no such
  guard: \<^verbatim>\<open>tokenRefresh\<close> (and \<^verbatim>\<open>refreshToken\<close> of \<^verbatim>\<open>index.js\<close>, the same body)
  with an access token and no refresh token posts
  \<^verbatim>\<open>{"client_id":"client","grant_type":"refresh_token","refresh_token":null}\<close>
  to the token endpoint, returns normally, and replaces the access token by what the
  response carries.
\<close>

theorem tokenRefresh_posts_without_refresh_token:
  "refreshToken browser_no_refresh = JNull \<and>
   storage browser_no_refresh ''refresh_token'' = None \<and>
   (case tokenRefresh (\<lambda>m. (None, m)) browser_no_refresh
           (Responded \<lparr> status = 200, json = Some [''access_token'' \<mapsto> JStr ''A2''] \<rparr>) of
      (res, b', reqs) \<Rightarrow>
        res = Inr () \<and>
        map url reqs = [''https://api.beyondigital.in/o/token/''] \<and>
        map http_method reqs = [''POST''] \<and>
        map body reqs =
          [Some (JSON_stringify [(''client_id'', JStr ''client''),
                                 (''grant_type'', JStr ''refresh_token''),
                                 (''refresh_token'', JNull)])] \<and>
        accessToken b' = JStr ''A2'' \<and> storage b' ''access_token'' = Some ''A2'')"
  by (simp add: tokenRefresh_def tokenRefresh_then_def browser_no_refresh_def browser0_def
        prop_of_def Let_def)

text \<open>The refresh of the browser variants leaves the refresh token alone, in memory
  and in storage; it leaves the stored expiry alone as well.\<close>

lemma tokenRefresh_keeps_refresh_token:
  "truthy (accessToken m) \<Longrightarrow>
   (case tokenRefresh authorize m res of
      (r, m', reqs) \<Rightarrow>
        refreshToken m' = refreshToken m \<and>
        storage m' ''refresh_token'' = storage m ''refresh_token'' \<and>
        storage m' ''expiry'' = storage m ''expiry'' \<and>
        storage m' ''expires_at'' = storage m ''expires_at'')"
  by (cases "parsed res") (simp_all add: tokenRefresh_def tokenRefresh_then_def Let_def)

text \<open>
  Claim C8. A successful refresh updates the access token and the expiry and keeps
  the refresh token, in memory and in storage, unless the response carries a new one.
  The Node \<^verbatim>\<open>refreshAccessToken\<close> goes through \<^verbatim>\<open>saveTokens\<close>, which sets
  \<^verbatim>\<open>this.refreshToken = data.refresh_token || null\<close>: after a refresh whose response
  has no \<^verbatim>\<open>refresh_token\<close> the token is gone from memory while storage still holds
  it, and the next refresh fails for want of a refresh token.
\<close>

theorem refresh_drops_refresh_token:
  "refreshToken node0 = JStr ''R'' \<and>
   (case refreshAccessToken (\<lambda>k d. []) node0 1700000000000
           (Responded \<lparr> status = 200,
              json = Some [''access_token'' \<mapsto> JStr ''A2'', ''expires_in'' \<mapsto> JNum 3600] \<rparr>) of
      (res, m', reqs) \<Rightarrow>
        res = Inr () \<and> accessToken m' = JStr ''A2'' \<and> expiry m' = JNum 1700003600000 \<and>
        refreshToken m' = JNull \<and> storage m' ''refresh_token'' = Some ''R'' \<and>
        refreshAccessToken (\<lambda>k d. []) m' 1700000000001
           (Responded \<lparr> status = 200,
              json = Some [''access_token'' \<mapsto> JStr ''A3'', ''expires_in'' \<mapsto> JNum 3600] \<rparr>)
          = (Inl (Error ''No refresh token available''), m', []))"
  by (simp add: refreshAccessToken_def json_headers_Inr token_exchange_def Let_def
        saveTokens_tokens saveTokens_expiry prop_of_def js_or_def node0_def)

section \<open>Logout\<close>

text \<open>With an access token held, \<^verbatim>\<open>logout\<close> issues the revoke request and removes
  the keys \<^verbatim>\<open>access_token\<close>, \<^verbatim>\<open>refresh_token\<close>, \<^verbatim>\<open>expires_in\<close> and
  \<^verbatim>\<open>expires_at\<close>, whatever becomes of the request; the key \<^verbatim>\<open>code_verifier\<close>
  that \<^verbatim>\<open>authorize\<close> writes is left in place.\<close>

lemma logout_removes_keys:
  assumes "truthy (accessToken m)"
  shows
    "case logout m res of
       (r, m', reqs) \<Rightarrow>
         r = Inr () \<and> revokeToken_call m = Inr (hd reqs) \<and> length reqs = 1 \<and>
         storage m' ''access_token'' = None \<and> storage m' ''refresh_token'' = None \<and>
         storage m' ''expires_in'' = None \<and> storage m' ''expires_at'' = None \<and>
         storage m' ''code_verifier'' = storage m ''code_verifier''"
  using assms
  by (cases "parsed res")
     (simp_all add: logout_def revokeToken_call_def revokeToken_settle_def
        revokeToken_then_def Let_def)

lemma logout_requires_access_token:
  "\<not> truthy (accessToken m) \<Longrightarrow>
   logout m res = (Inl (Error ''No access token found''), m, [])"
  by (simp add: logout_def revokeToken_call_def)

text \<open>
  Claim C5. \<^verbatim>\<open>logout\<close> invokes revoke and then removes all persisted keys, whatever
  the outcome of revoke and also when no access token is held. With no access token
  \<^verbatim>\<open>revokeToken\<close> throws, \<^verbatim>\<open>logout\<close> does not catch it, and the four removals
  written after the call never run: the keys that are stored stay.
\<close>

theorem logout_without_access_token_throws:
  "logout browser_logged_out (Responded \<lparr> status = 200, json = Some Map.empty \<rparr>) =
     (Inl (Error ''No access token found''), browser_logged_out, [])
   \<and> storage browser_logged_out ''refresh_token'' = Some ''R''
   \<and> storage browser_logged_out ''expires_in'' = Some ''3600''
   \<and> storage browser_logged_out ''expires_at'' = Some ''1700000003600''"
  by (simp add: logout_def revokeToken_call_def browser_logged_out_def browser0_def)

section \<open>User info\<close>

text \<open>The TypeScript port asks for a valid token first: when \<^verbatim>\<open>isTokenValid\<close> is
  false it throws without a request, and it returns only when the token is valid.\<close>

lemma getUserInfo_requires_valid_token:
  "\<not> isTokenValid m now \<Longrightarrow>
   getUserInfo m now res = (Inl (Error ''No access token found''), [])"
  by (simp add: getUserInfo_def)

lemma getUserInfo_success_needs_valid_token:
  "fst (getUserInfo m now res) = Inr u \<Longrightarrow> isTokenValid m now \<and> truthy (accessToken m)"
  by (auto simp: getUserInfo_def split: if_splits)

text \<open>
  Claim C7. When the token is not valid the userinfo fetch fails and issues no
  request. \<^verbatim>\<open>getUserInfo\<close> of \<^verbatim>\<open>index.js\<close> and \<^verbatim>\<open>fetchUserInfo\<close> of the Node
  variant test the access token only: with an access token and no stored expiry
  (\<^verbatim>\<open>isTokenValid\<close> false), or with an expiry long past, the request goes out with
  the bearer token.
\<close>

theorem userinfo_fetch_ignores_expiry:
  "isTokenValid_js browser_no_expiry 1700000000000 = Inr False \<and>
   getUserInfo_js browser_no_expiry =
     (Inr (), [\<lparr> url = ''https://api.beyondigital.in/o/userinfo/'', http_method = ''GET'',
                 headers = [(''Content-Type'', ''application/json''),
                            (''Authorization'', ''Bearer A'')],
                 body = None \<rparr>]) \<and>
   expiry node_expired = JNum 1000 \<and>
   fetchUserInfo (\<lambda>k d. []) node_expired
       (Responded \<lparr> status = 200, json = Some [''sub'' \<mapsto> JStr ''u1''] \<rparr>) =
     (Inr [''sub'' \<mapsto> JStr ''u1''],
      [\<lparr> url = ''https://api.beyondigital.in/o/userinfo'', http_method = ''GET'',
         headers = [(''Authorization'', ''Bearer A'')], body = None \<rparr>])"
  by (simp add: isTokenValid_js_def getUserInfo_js_def userinfo_request_def storage_get_def
        fetchUserInfo_def browser_no_expiry_def browser0_def node_expired_def node0_def Let_def)

section \<open>The PKCE verifier\<close>

lemma length_charset: "length charset = 66"
  by (simp add: charset_def)

lemma charAt_draw:
  assumes "0 \<le> r" and "r < 1"
  shows "\<exists>c. charAt charset \<lfloor>r * real (length charset)\<rfloor> = [c] \<and> c \<in> set charset"
proof -
  have lo: "0 \<le> \<lfloor>r * 66\<rfloor>" using assms(1) by simp
  have "r * 66 < 66" using assms(2) by simp
  then have hi: "\<lfloor>r * 66\<rfloor> < 66" by (simp add: floor_less_iff)
  have "nat \<lfloor>r * 66\<rfloor> < 66" using lo hi by linarith
  then have "nat \<lfloor>r * 66\<rfloor> < length charset" by (simp only: length_charset)
  then have "charset ! nat \<lfloor>r * 66\<rfloor> \<in> set charset" by (rule nth_mem)
  with lo hi show ?thesis by (simp add: charAt_def length_charset)
qed

lemma generateRandomString_loop_inv:
  assumes "\<And>k. 0 \<le> rnd k \<and> rnd k < 1"
  shows "length (generateRandomString_loop rnd len i random) = length random + nat (len - i)
         \<and> set (generateRandomString_loop rnd len i random) \<subseteq> set random \<union> set charset"
  using assms
proof (induction rnd len i random rule: generateRandomString_loop.induct)
  case (1 rnd len i random)
  show ?case
  proof (cases "i < len")
    case True
    obtain c where c: "charAt charset \<lfloor>rnd (nat i) * real (length charset)\<rfloor> = [c]"
      "c \<in> set charset"
      using charAt_draw [of "rnd (nat i)"] "1.prems" by blast
    have step: "generateRandomString_loop rnd len i random =
                generateRandomString_loop rnd len (i + 1) (random @ [c])"
      using True c(1) by (subst generateRandomString_loop.simps) simp
    have IH: "length (generateRandomString_loop rnd len (i + 1) (random @ [c])) =
                length (random @ [c]) + nat (len - (i + 1))
              \<and> set (generateRandomString_loop rnd len (i + 1) (random @ [c]))
                \<subseteq> set (random @ [c]) \<union> set charset"
      using "1.IH" [OF True] "1.prems" c(1) by simp
    have "length (random @ [c]) + nat (len - (i + 1)) = length random + nat (len - i)"
      using True by simp
    moreover have "set (random @ [c]) \<union> set charset = set random \<union> set charset"
      using c(2) by auto
    ultimately show ?thesis using IH step by simp
  next
    case False
    then show ?thesis by (simp add: generateRandomString_loop.simps)
  qed
qed

text \<open>Length and alphabet of the verifier, with the product over the reals: whatever
  \<^verbatim>\<open>Math.random\<close> returns within \<open>[0, 1)\<close>, the string has \<open>len\<close> characters,
  all of the unreserved set.\<close>

lemma generateRandomString_length_charset:
  assumes "\<And>k. 0 \<le> rnd k \<and> rnd k < 1"
  shows "length (generateRandomString rnd len) = nat len
         \<and> set (generateRandomString rnd len) \<subseteq> set charset"
  using generateRandomString_loop_inv [OF assms, where len = len and i = 0 and random = "[]"]
  by (simp add: generateRandomString_def)

text \<open>
  Claim C9. The verifier has the requested length, its characters are of the
  unreserved set, and its random source is cryptographically secure. The first two
  hold in this model (\<open>generateRandomString_length_charset\<close>); the source is \<^verbatim>\<open>Math.random()\<close>,
  and the verifier is a function of its values alone: were they all 0, the 64
  characters would all be \<^verbatim>\<open>A\<close>.
\<close>

theorem generateRandomString_follows_Math_random:
  "generateRandomString (\<lambda>k. 0) 64 =
     ''AAAAAAAAAAAAAAAAAAAAAAAAAAAAAAAAAAAAAAAAAAAAAAAAAAAAAAAAAAAAAAAA''"
  by (simp add: generateRandomString_def generateRandomString_loop.simps charAt_def
        charset_def)

section \<open>The authorization URL\<close>

lemma hex_upper_digit:
  "d < 16 \<Longrightarrow> hex_upper d \<in> set ''0123456789ABCDEF''"
  unfolding hex_upper_def by (rule nth_mem) simp

lemma hex_upper_of_char:
  "hex_upper (of_char c div 16) \<in> set ''0123456789ABCDEF''"
  "hex_upper (of_char c mod 16) \<in> set ''0123456789ABCDEF''"
proof -
  have "(of_char c :: nat) < 256" by (rule nat_of_char_less_256)
  then have "(of_char c :: nat) div 16 < 16" by arith
  then show "hex_upper (of_char c div 16) \<in> set ''0123456789ABCDEF''"
    by (rule hex_upper_digit)
  have "(of_char c :: nat) mod 16 < 16" by simp
  then show "hex_upper (of_char c mod 16) \<in> set ''0123456789ABCDEF''"
    by (rule hex_upper_digit)
qed

lemma url_safe_hex: "x \<in> set ''0123456789ABCDEF'' \<Longrightarrow> url_safe x"
  by (auto simp: url_safe_def)

lemma url_safe_plain:
  "x \<in> set ''ABCDEFGHIJKLMNOPQRSTUVWXYZabcdefghijklmnopqrstuvwxyz0123456789*-._''
   \<Longrightarrow> url_safe x"
  by (auto simp: url_safe_def)

lemma urlencoded_byte_safe: "list_all url_safe (urlencoded_byte c)"
proof (cases "c = CHR 0x20")
  case True
  then show ?thesis by (simp add: urlencoded_byte_def url_safe_def)
next
  case sp: False
  show ?thesis
  proof (cases "c \<in> set ''ABCDEFGHIJKLMNOPQRSTUVWXYZabcdefghijklmnopqrstuvwxyz0123456789*-._''")
    case True
    then have "url_safe c" by (rule url_safe_plain)
    moreover have "urlencoded_byte c = [c]"
      unfolding urlencoded_byte_def using sp True by (simp only: if_False if_True)
    ultimately show ?thesis by simp
  next
    case False
    have "urlencoded_byte c =
            [CHR ''%'', hex_upper (of_char c div 16), hex_upper (of_char c mod 16)]"
      unfolding urlencoded_byte_def using sp False by (simp only: if_False)
    moreover have "url_safe (CHR ''%'')" by (simp add: url_safe_def)
    ultimately show ?thesis
      using url_safe_hex [OF hex_upper_of_char(1) [of c]]
            url_safe_hex [OF hex_upper_of_char(2) [of c]] by simp
  qed
qed

text \<open>No encoded name or value holds \<^verbatim>\<open>&\<close>, \<^verbatim>\<open>=\<close> or \<^verbatim>\<open>?\<close>, so the separators
  of the URL below are the only ones and the order of its parameters is read off it.\<close>

lemma urlencoded_string_safe: "list_all url_safe (urlencoded_string s)"
  by (induction s) (simp_all add: urlencoded_string_def urlencoded_byte_safe)

lemma urlencoded_names:
  "urlencoded_string ''response_type'' = ''response_type''"
  "urlencoded_string ''client_id'' = ''client_id''"
  "urlencoded_string ''redirect_uri'' = ''redirect_uri''"
  "urlencoded_string ''scope'' = ''scope''"
  "urlencoded_string ''state'' = ''state''"
  by (simp_all add: urlencoded_string_def urlencoded_byte_def)

lemma getAuthorizationUrl_shape:
  "getAuthorizationUrl m =
     authUrl m @ ''?response_type='' @ urlencoded_string (responseType m)
       @ ''&client_id='' @ urlencoded_string (clientId m)
       @ ''&redirect_uri='' @ urlencoded_string (redirectUri m)
       @ ''&scope='' @ urlencoded_string (js_String (scope m))
       @ ''&state='' @ urlencoded_string (state m)"
  by (simp add: getAuthorizationUrl_def getAuthorizationUrl_params_def
        URLSearchParams_toString_def urlencoded_pair_def urlencoded_names)

lemma authorize_searchParams_shape:
  "(case authorize_searchParams rnd digest b of
        (Inl e, b') \<Rightarrow> withPKCE b \<and> digest (generateRandomString rnd 64) = None
      | (Inr ps, b') \<Rightarrow>
          ps = [(''client_id'', clientID b), (''redirect_uri'', redirectURI b),
                (''response_type'', responseType b)]
               @ (if truthy (scope b) then [(''scope'', js_String (scope b))] else [])
               @ (if withPKCE b
                  then [(''code_challenge'', the (digest (generateRandomString rnd 64))),
                        (''code_challenge_method'', ''S256'')]
                  else [])
          \<and> (if withPKCE b then digest (generateRandomString rnd 64) \<noteq> None else True))"
  by (simp add: authorize_searchParams_def sha256_def Let_def split: option.splits)

text \<open>
  Claim C6 (as amended). The Node \<^verbatim>\<open>getAuthorizationUrl\<close> is the authorization
  endpoint followed by \<^verbatim>\<open>response_type\<close>, \<^verbatim>\<open>client_id\<close>, \<^verbatim>\<open>redirect_uri\<close>,
  \<^verbatim>\<open>scope\<close> and \<^verbatim>\<open>state\<close> in this order, \<^verbatim>\<open>scope\<close> and \<^verbatim>\<open>state\<close> always
  present and no PKCE parameter ever. \<^verbatim>\<open>authorize\<close> of the browser variants
  appends \<^verbatim>\<open>client_id\<close>, \<^verbatim>\<open>redirect_uri\<close>, \<^verbatim>\<open>response_type\<close>, \<^verbatim>\<open>scope\<close> when
  it is non-empty and, with PKCE, \<^verbatim>\<open>code_challenge\<close> (the digest of the verifier)
  and \<^verbatim>\<open>code_challenge_method=S256\<close>; it has no \<^verbatim>\<open>state\<close> parameter. Both are
  functions of the manager (and of the verifier drawn), so equal inputs give equal
  URLs.
\<close>

theorem authorization_url_parameters:
  "getAuthorizationUrl m =
     authUrl m @ ''?response_type='' @ urlencoded_string (responseType m)
       @ ''&client_id='' @ urlencoded_string (clientId m)
       @ ''&redirect_uri='' @ urlencoded_string (redirectUri m)
       @ ''&scope='' @ urlencoded_string (js_String (scope m))
       @ ''&state='' @ urlencoded_string (state m)
   \<and> (case authorize_searchParams rnd digest b of
        (Inl e, b') \<Rightarrow> withPKCE b \<and> digest (generateRandomString rnd 64) = None
      | (Inr ps, b') \<Rightarrow>
          ps = [(''client_id'', clientID b), (''redirect_uri'', redirectURI b),
                (''response_type'', responseType b)]
               @ (if truthy (scope b) then [(''scope'', js_String (scope b))] else [])
               @ (if withPKCE b
                  then [(''code_challenge'', the (digest (generateRandomString rnd 64))),
                        (''code_challenge_method'', ''S256'')]
                  else [])
          \<and> (if withPKCE b then digest (generateRandomString rnd 64) \<noteq> None else True))"
  using getAuthorizationUrl_shape [of m]
    authorize_searchParams_shape [where rnd = rnd and digest = digest and b = b]
  by (rule conjI)

text \<open>
  Claim C6 as stated fails on both variants: the Node URL starts with
  \<^verbatim>\<open>response_type\<close> and carries \<^verbatim>\<open>scope=\<close> even when the scope is empty; the
  browser parameters have no \<^verbatim>\<open>state\<close>.
\<close>

theorem authorization_url_order_differs:
  "getAuthorizationUrl node_empty_scope =
     ''https://api.beyondigital.in/o/authorize?response_type=code&client_id=client&redirect_uri=https%3A%2F%2Fapp.example%2Fcb&scope=&state=xyz''
   \<and> map fst (getAuthorizationUrl_params node_empty_scope)
       \<noteq> [''client_id'', ''redirect_uri'', ''response_type'', ''state'']
   \<and> fst (authorize_searchParams (\<lambda>k. 0) (\<lambda>v. Some ''challenge'') browser0) =
       Inr [(''client_id'', ''client''), (''redirect_uri'', ''https://app.example/cb''),
            (''response_type'', ''code''), (''scope'', ''openid''),
            (''code_challenge'', ''challenge''), (''code_challenge_method'', ''S256'')]"
  by (simp add: getAuthorizationUrl_def getAuthorizationUrl_params_def
        URLSearchParams_toString_def urlencoded_pair_def urlencoded_string_def
        urlencoded_byte_def hex_upper_def node_empty_scope_def node0_def
        authorize_searchParams_def sha256_def browser0_def Let_def)

section \<open>Request signing\<close>

text \<open>
  Claim C10. Every exchange request of the Node variant (code exchange, refresh,
  revoke) carries, when an HMAC secret is set, the header \<^verbatim>\<open>X-HMAC-Signature\<close> with
  the keyed digest of exactly the string sent as its body, and no such header when
  no secret is set. \<open>hmac key data\<close> stands for Node's hex-encoded HMAC-SHA256.
\<close>

theorem exchange_requests_signed:
  "(let H = (\<lambda>p. if truthy (hmacSecret m)
                  then [(''Content-Type'', ''application/json''),
                        (''X-HMAC-Signature'', hmac (js_String (hmacSecret m)) p)]
                  else [(''Content-Type'', ''application/json'')])
    in (\<exists>p. snd (snd (fetchToken hmac m now code res)) =
              [\<lparr> url = tokenUrl m, http_method = ''POST'', headers = H p, body = Some p \<rparr>])
     \<and> (\<exists>p. snd (snd (refreshAccessToken hmac m now res)) =
              (if truthy (refreshToken m)
               then [\<lparr> url = tokenUrl m, http_method = ''POST'', headers = H p,
                       body = Some p \<rparr>]
               else []))
     \<and> (\<exists>p. snd (snd (revokeToken_node hmac m res)) =
              (if truthy (accessToken m)
               then [\<lparr> url = revokeUrl m, http_method = ''POST'', headers = H p,
                       body = Some p \<rparr>]
               else [])))"
proof -
  have a: "\<And>rq. snd (snd (token_exchange m now rq res)) = [rq]"
    by (simp add: token_exchange_def split: fetch_result.splits option.splits)
  show ?thesis
    unfolding Let_def
    apply (intro conjI)
      apply (simp add: fetchToken_def json_headers_Inr a Let_def)
     apply (simp add: refreshAccessToken_def json_headers_Inr a Let_def)
    apply (simp add: revokeToken_node_def json_headers_Inr Let_def split: fetch_result.splits)
    done
qed

theorem exchange_requests_signed_witness:
  "map headers (snd (snd (revokeToken_node (\<lambda>k d. ''hmac('' @ k @ '','' @ d @ '')'')
                            node_signing Rejected)))
     = [[(''Content-Type'', ''application/json''),
         (''X-HMAC-Signature'',
          ''hmac(k3y,'' @ JSON_stringify [(''token'', JStr ''A'')] @ '')'')]]
   \<and> map body (snd (snd (revokeToken_node (\<lambda>k d. ''hmac('' @ k @ '','' @ d @ '')'')
                            node_signing Rejected)))
     = [Some (JSON_stringify [(''token'', JStr ''A'')])]
   \<and> map headers (snd (snd (revokeToken_node (\<lambda>k d. ''hmac('' @ k @ '','' @ d @ '')'')
                              node0 Rejected)))
     = [[(''Content-Type'', ''application/json'')]]"
  using exchange_requests_signed [where m = node_signing and res = Rejected
          and hmac = "\<lambda>k d. ''hmac('' @ k @ '','' @ d @ '')''"]
  by (simp add: revokeToken_node_def json_headers_Inr node_signing_def node0_def Let_def)

end
